theory Spec2Isabelle
  imports Complex_Main "HOL-Library.Sublist"
begin

section \<open>Python values and exceptions\<close>

text \<open>
  The report generator is Python. An exception is a value of the type \<open>'e exn\<close>: the
  built-in exceptions that the code of the repository can raise by itself, and
  \<open>Raised e\<close> for an exception \<open>e\<close> raised inside an external library (the vector store
  or the chat agents). A function that can raise returns \<open>'e exn + 'a\<close>, \<open>Inl\<close> being
  the exception. Calls of \<open>print\<close> are left out.
\<close>

datatype 'e exn = KeyError string | IndexError | TypeError | AttributeError | Raised 'e

text \<open>
  A metadata value of the vector store is a string or a number; \<open>load_data_to_vectordb\<close>
  stores strings and the record id. A metadata dict is an association list read with
  \<open>map_of\<close>, which is \<open>dict.get\<close>.
\<close>

datatype mval = MStr string | MInt int

type_synonym metadata = "(string \<times> mval) list"

text \<open>
  Floats are modelled as reals: \<open>1 - distance\<close> is the exact difference and the rounding
  of binary floating point is not part of the model.
\<close>

subsection \<open>Rendering values in an f-string\<close>

definition digit_char :: "nat \<Rightarrow> char" where
  "digit_char d = ''0123456789'' ! d"

fun str_nat :: "nat \<Rightarrow> string" where
  "str_nat n = (if n < 10 then [digit_char n] else str_nat (n div 10) @ [digit_char (n mod 10)])"

declare str_nat.simps [simp del]

definition str_int :: "int \<Rightarrow> string" where
  "str_int i = (if i < 0 then CHR ''-'' # str_nat (nat (- i)) else str_nat (nat i))"

text \<open>\<open>{metadata.get(k)}\<close>: a missing key is \<open>None\<close>, which an f-string renders as \<open>None\<close>.\<close>

definition str_get :: "metadata \<Rightarrow> string \<Rightarrow> string" where
  "str_get md k =
     (case map_of md k of None \<Rightarrow> ''None'' | Some (MStr s) \<Rightarrow> s | Some (MInt i) \<Rightarrow> str_int i)"

text \<open>\<open>str.upper\<close> on ASCII text; other bytes are left as they are.\<close>

definition upper_char :: "char \<Rightarrow> char" where
  "upper_char c =
     (case map_of (zip ''abcdefghijklmnopqrstuvwxyz'' ''ABCDEFGHIJKLMNOPQRSTUVWXYZ'') c of
        Some u \<Rightarrow> u | None \<Rightarrow> c)"

text \<open>\<open>item['type'].upper()\<close>: an \<open>int\<close> has no method \<open>upper\<close>.\<close>

definition py_upper :: "mval \<Rightarrow> 'e exn + string" where
  "py_upper v = (case v of MStr s \<Rightarrow> Inr (map upper_char s) | MInt i \<Rightarrow> Inl AttributeError)"

text \<open>
  The format \<open>:.2f\<close>: two decimals, the nearest value, a tie to the even digit, the sign
  of the number in front (so a small negative number is \<open>-0.00\<close>).
\<close>

definition round_half_even :: "real \<Rightarrow> int" where
  "round_half_even x =
     (let f = \<lfloor>x\<rfloor>; d = x - of_int f
      in if d < 1/2 then f else if 1/2 < d then f + 1 else if even f then f else f + 1)"

definition format_2f :: "real \<Rightarrow> string" where
  "format_2f x =
     (let n = nat (round_half_even (\<bar>x\<bar> * 100))
      in (if x < 0 then ''-'' else '''') @ str_nat (n div 100) @ ''.'' @
         [digit_char (n mod 100 div 10), digit_char (n mod 10)])"

text \<open>\<open>sep.join(parts)\<close>\<close>

fun join :: "string \<Rightarrow> string list \<Rightarrow> string" where
  "join sep [] = []"
| "join sep [p] = p"
| "join sep (p # q # ps) = p @ sep @ join sep (q # ps)"

section \<open>rag\_retrieval.py: the result of a query and its normal form\<close>

text \<open>
  The dict that \<open>collection.query\<close> returns. Each of the three entries the code reads is
  \<open>Absent\<close> (no such key), \<open>Null\<close> (the key holds \<open>None\<close>) or a list with one inner list
  per query text. \<open>other_keys\<close> counts the keys the code never reads (\<open>ids\<close>,
  \<open>embeddings\<close>, ...); the dict \<open>{}\<close> has no key at all.
\<close>

datatype 'a entry = Absent | Null | Val 'a

record query_result =
  documents :: "string list list entry"
  metadatas :: "metadata list list entry"
  distances :: "real list list entry"
  other_keys :: nat

record context_item =
  rank :: nat
  relevance_score :: real
  item_type :: mval
  content :: string
  metadata :: metadata

text \<open>\<open>format_retrieval_results\<close> returns a \<open>str\<close> or a \<open>list\<close> of items.\<close>

datatype formatted = Message string | Items "context_item list"

definition no_info :: string where
  "no_info = ''No relevant information found.''"

text \<open>\<open>not results\<close> for a dict: it has no key.\<close>

definition empty_dict :: "query_result \<Rightarrow> bool" where
  "empty_dict r \<longleftrightarrow>
     documents r = Absent \<and> metadatas r = Absent \<and> distances r = Absent \<and> other_keys r = 0"

text \<open>\<open>results.get(k)\<close> is truthy: the key is there and holds a list that is not empty.\<close>

definition truthy :: "'a list entry \<Rightarrow> bool" where
  "truthy e = (case e of Absent \<Rightarrow> False | Null \<Rightarrow> False | Val xs \<Rightarrow> xs \<noteq> [])"

text \<open>\<open>results[k][0]\<close>\<close>

definition subscript0 :: "string \<Rightarrow> 'a list entry \<Rightarrow> 'e exn + 'a" where
  "subscript0 k e =
     (case e of
        Absent \<Rightarrow> Inl (KeyError k)
      | Null \<Rightarrow> Inl TypeError
      | Val [] \<Rightarrow> Inl IndexError
      | Val (x # xs) \<Rightarrow> Inr x)"

text \<open>
  The loop over \<open>enumerate(zip(documents, metadatas, distances))\<close>: \<open>i\<close> is the index,
  \<open>formatted_context\<close> the list built so far. \<open>zip\<close> stops at the shortest list.
\<close>

definition make_item :: "nat \<Rightarrow> string \<Rightarrow> metadata \<Rightarrow> real \<Rightarrow> context_item" where
  "make_item i doc md distance =
     \<lparr>rank = i + 1,
      relevance_score = 1 - distance,
      item_type = (case map_of md ''type'' of None \<Rightarrow> MStr ''unknown'' | Some t \<Rightarrow> t),
      content = doc,
      metadata = md\<rparr>"

fun format_loop ::
  "nat \<Rightarrow> (string \<times> metadata \<times> real) list \<Rightarrow> context_item list \<Rightarrow> context_item list" where
  "format_loop i [] formatted_context = formatted_context"
| "format_loop i ((doc, md, distance) # rest) formatted_context =
     format_loop (i + 1) rest (formatted_context @ [make_item i doc md distance])"

definition format_retrieval_results :: "query_result option \<Rightarrow> 'e exn + formatted" where
  "format_retrieval_results results =
     (case results of
        None \<Rightarrow> Inr (Message no_info)
      | Some r \<Rightarrow>
          if empty_dict r \<or> \<not> truthy (documents r) then Inr (Message no_info)
          else
            (case subscript0 ''documents'' (documents r) of
               Inl e \<Rightarrow> Inl e
             | Inr docs \<Rightarrow>
                 (case subscript0 ''metadatas'' (metadatas r) of
                    Inl e \<Rightarrow> Inl e
                  | Inr mds \<Rightarrow>
                      (case subscript0 ''distances'' (distances r) of
                         Inl e \<Rightarrow> Inl e
                       | Inr ds \<Rightarrow> Inr (Items (format_loop 0 (zip docs (zip mds ds)) []))))))"

section \<open>rag\_retrieval.py: the context string\<close>

definition context_header :: string where
  "context_header = ''Retrieved relevant information:\<newline>''"

definition rank_line :: "context_item \<Rightarrow> string \<Rightarrow> string" where
  "rank_line item up =
     ''\<newline>'' @ str_nat (rank item) @ ''. ['' @ up @ ''] (Relevance: '' @
     format_2f (relevance_score item) @ '')''"

definition content_line :: "context_item \<Rightarrow> string" where
  "content_line item = ''   '' @ content item"

definition sales_line :: "metadata \<Rightarrow> string" where
  "sales_line md =
     ''   Product: '' @ str_get md ''product'' @ '', Revenue: $'' @ str_get md ''revenue'' @
     '', Region: '' @ str_get md ''region'' @ '', Quarter: '' @ str_get md ''quarter''"

definition marketing_line :: "metadata \<Rightarrow> string" where
  "marketing_line md =
     ''   Campaign: '' @ str_get md ''campaign_name'' @ '', Channel: '' @ str_get md ''channel'' @
     '', Budget: $'' @ str_get md ''budget'' @ '', Conversions: '' @ str_get md ''conversions''"

text \<open>What one turn of the loop \<open>for item in formatted_context\<close> appends.\<close>

definition item_parts :: "context_item \<Rightarrow> 'e exn + string list" where
  "item_parts item =
     (case py_upper (item_type item) of
        Inl e \<Rightarrow> Inl e
      | Inr up \<Rightarrow>
          Inr ([rank_line item up, content_line item] @
               (if item_type item = MStr ''sales'' then [sales_line (metadata item)]
                else if item_type item = MStr ''marketing'' then [marketing_line (metadata item)]
                else [])))"

fun context_loop :: "context_item list \<Rightarrow> string list \<Rightarrow> 'e exn + string list" where
  "context_loop [] context_parts = Inr context_parts"
| "context_loop (item # rest) context_parts =
     (case item_parts item of
        Inl e \<Rightarrow> Inl e
      | Inr ls \<Rightarrow> context_loop rest (context_parts @ ls))"

definition create_context_string :: "formatted \<Rightarrow> 'e exn + string" where
  "create_context_string formatted_context =
     (case formatted_context of
        Message s \<Rightarrow> Inr s
      | Items items \<Rightarrow>
          (case context_loop items [context_header] of
             Inl e \<Rightarrow> Inl e
           | Inr context_parts \<Rightarrow> Inr (join ''\<newline>'' context_parts)))"

section \<open>The external libraries and the state of a run\<close>

text \<open>
  The vector store (chromadb) and the chat agents (autogen) are not code of this
  repository. A \<open>library\<close> gives, for each operation the code calls, what it returns or
  raises and how it changes the outside world \<open>'w\<close>. Nothing is assumed about it.
\<close>

record query_params =
  query_texts :: "string list"
  n_results :: int
  where_filter :: "(string \<times> string) list option"

record agent =
  agent_name :: string
  system_message :: string

record ('w, 'e) library =
  persistent_client :: "'w \<Rightarrow> ('e + unit) \<times> 'w"
  get_collection :: "'w \<Rightarrow> ('e + unit) \<times> 'w"
  create_collection :: "'w \<Rightarrow> ('e + unit) \<times> 'w"
  collection_query :: "query_params \<Rightarrow> 'w \<Rightarrow> ('e + query_result option) \<times> 'w"
  generate_reply :: "agent \<Rightarrow> string \<Rightarrow> 'w \<Rightarrow> ('e + string) \<times> 'w"

text \<open>
  The state of a run: the outside world, the calls of \<open>collection.query\<close> and of
  \<open>initiate_chat\<close> issued so far, in order, and the last message of the conversation
  with each agent, by the agent's name.
\<close>

record 'w state =
  world :: 'w
  queries :: "query_params list"
  chats :: "(agent \<times> string) list"
  last_messages :: "string \<Rightarrow> string option"

type_synonym ('w, 'e, 'a) prog = "'w state \<Rightarrow> ('e exn + 'a) \<times> 'w state"

text \<open>One statement after another: an exception ends the run of the function.\<close>

definition then_do :: "('w, 'e, 'a) prog \<Rightarrow> ('a \<Rightarrow> ('w, 'e, 'b) prog) \<Rightarrow> ('w, 'e, 'b) prog" where
  "then_do m f s = (case m s of (Inl e, s') \<Rightarrow> (Inl e, s') | (Inr a, s') \<Rightarrow> f a s')"

definition pure_step :: "'e exn + 'a \<Rightarrow> ('w, 'e, 'a) prog" where
  "pure_step r s = (r, s)"

section \<open>vector\_db.py\<close>

text \<open>
  \<open>initialize_chromadb\<close>: the client, then the collection; the bare \<open>except\<close> turns any
  failure of \<open>get_collection\<close> into a call of \<open>create_collection\<close>.
\<close>

definition initialize_chromadb :: "('w, 'e) library \<Rightarrow> ('w, 'e, unit) prog" where
  "initialize_chromadb lib s =
     (case persistent_client lib (world s) of
        (Inl e, w) \<Rightarrow> (Inl (Raised e), s\<lparr>world := w\<rparr>)
      | (Inr u, w) \<Rightarrow>
          (case get_collection lib w of
             (Inr c, w') \<Rightarrow> (Inr (), s\<lparr>world := w'\<rparr>)
           | (Inl x, w') \<Rightarrow>
               (case create_collection lib w' of
                  (Inl e, w'') \<Rightarrow> (Inl (Raised e), s\<lparr>world := w''\<rparr>)
                | (Inr c, w'') \<Rightarrow> (Inr (), s\<lparr>world := w''\<rparr>))))"

text \<open>\<open>collection.query(**query_params)\<close>, recorded in \<open>queries\<close>.\<close>

definition run_query :: "('w, 'e) library \<Rightarrow> query_params \<Rightarrow> ('w, 'e, query_result option) prog" where
  "run_query lib params s =
     (case collection_query lib params (world s) of
        (Inl e, w) \<Rightarrow> (Inl (Raised e), s\<lparr>world := w, queries := queries s @ [params]\<rparr>)
      | (Inr results, w) \<Rightarrow> (Inr results, s\<lparr>world := w, queries := queries s @ [params]\<rparr>))"

definition query_vectordb ::
  "('w, 'e) library \<Rightarrow> string \<Rightarrow> int \<Rightarrow> (string \<times> string) list option \<Rightarrow>
   ('w, 'e, query_result option) prog" where
  "query_vectordb lib query_text n filter_dict =
     (let query_params = \<lparr>query_texts = [query_text], n_results = n, where_filter = None\<rparr>;
          query_params' =
            (if filter_dict \<noteq> None \<and> filter_dict \<noteq> Some []
             then query_params\<lparr>where_filter := filter_dict\<rparr> else query_params)
      in run_query lib query_params')"

section \<open>rag\_retrieval.py: retrieval\<close>

text \<open>\<open>filter_type\<close> is \<open>None\<close> or a string; \<open>if filter_type:\<close> is false for both \<open>None\<close> and the empty string.\<close>

definition retrieve_relevant_context ::
  "('w, 'e) library \<Rightarrow> string \<Rightarrow> int \<Rightarrow> string option \<Rightarrow> ('w, 'e, query_result option) prog" where
  "retrieve_relevant_context lib query n filter_type =
     then_do (initialize_chromadb lib) (\<lambda>collection.
       let filter_dict =
             (case filter_type of
                None \<Rightarrow> None
              | Some t \<Rightarrow> if t \<noteq> [] then Some [(''type'', t)] else None)
       in query_vectordb lib query n filter_dict)"

definition retrieve_sales_data :: "('w, 'e) library \<Rightarrow> string \<Rightarrow> int \<Rightarrow> ('w, 'e, string) prog" where
  "retrieve_sales_data lib query n =
     then_do (retrieve_relevant_context lib query n (Some ''sales'')) (\<lambda>results.
     then_do (pure_step (format_retrieval_results results)) (\<lambda>formatted.
     pure_step (create_context_string formatted)))"

definition retrieve_marketing_data :: "('w, 'e) library \<Rightarrow> string \<Rightarrow> int \<Rightarrow> ('w, 'e, string) prog" where
  "retrieve_marketing_data lib query n =
     then_do (retrieve_relevant_context lib query n (Some ''marketing'')) (\<lambda>results.
     then_do (pure_step (format_retrieval_results results)) (\<lambda>formatted.
     pure_step (create_context_string formatted)))"

definition retrieve_combined_data :: "('w, 'e) library \<Rightarrow> string \<Rightarrow> int \<Rightarrow> ('w, 'e, string) prog" where
  "retrieve_combined_data lib query n =
     then_do (retrieve_relevant_context lib query n None) (\<lambda>results.
     then_do (pure_step (format_retrieval_results results)) (\<lambda>formatted.
     pure_step (create_context_string formatted)))"

section \<open>agent.py\<close>

definition data_analyst :: agent where
  "data_analyst =
     \<lparr>agent_name = ''data_analyst'',
      system_message =
        ''You are a Senior Data Analyst specializing in sales and marketing analytics.\<newline>\<newline>Your responsibilities:\<newline>1. Analyze sales and marketing data provided to you\<newline>2. Identify trends, patterns, and anomalies\<newline>3. Calculate key metrics and KPIs\<newline>4. Provide data-driven insights\<newline>5. Be precise and analytical in your findings\<newline>\<newline>You receive context from a RAG system containing real sales and marketing data.\<newline>Base all your analysis on this retrieved context.''\<rparr>"

definition report_writer :: agent where
  "report_writer =
     \<lparr>agent_name = ''report_writer'',
      system_message =
        ''You are a Professional Report Writer specialized in business reporting.\<newline>\<newline>Your responsibilities:\<newline>1. Take analytical findings and create comprehensive reports\<newline>2. Structure reports with clear sections (Executive Summary, Key Findings, etc.)\<newline>3. Write in a professional, clear, and engaging manner\<newline>4. Provide actionable recommendations\<newline>5. Format reports properly with bullet points and sections\<newline>\<newline>Create reports that executives can easily understand and act upon.''\<rparr>"

text \<open>
  \<open>user_proxy.initiate_chat(recipient, message=..., max_turns=1)\<close>: one message to the
  agent and its one reply, which is then the last message of that conversation. The
  call is recorded in \<open>chats\<close>.
\<close>

definition initiate_chat :: "('w, 'e) library \<Rightarrow> agent \<Rightarrow> string \<Rightarrow> ('w, 'e, unit) prog" where
  "initiate_chat lib recipient message s =
     (case generate_reply lib recipient message (world s) of
        (Inl e, w) \<Rightarrow>
          (Inl (Raised e), s\<lparr>world := w, chats := chats s @ [(recipient, message)]\<rparr>)
      | (Inr reply, w) \<Rightarrow>
          (Inr (),
           s\<lparr>world := w, chats := chats s @ [(recipient, message)],
             last_messages := (last_messages s)(agent_name recipient \<mapsto> reply)\<rparr>))"

text \<open>\<open>user_proxy.last_message(agent)["content"]\<close>\<close>

definition last_message :: "agent \<Rightarrow> ('w, 'e, string) prog" where
  "last_message a s =
     (case last_messages s (agent_name a) of
        None \<Rightarrow> (Inl (KeyError (agent_name a)), s)
      | Some m \<Rightarrow> (Inr m, s))"

definition analysis_prompt :: "string \<Rightarrow> string \<Rightarrow> string" where
  "analysis_prompt query context =
     ''Based on the following data retrieved from our database, please analyze and identify key insights:\<newline>\<newline>Query: '' @
     query @ ''\<newline>\<newline>'' @ context @
     ''\<newline>\<newline>Please provide:\<newline>1. Key metrics and numbers\<newline>2. Notable trends\<newline>3. Top performers\<newline>4. Areas of concern\<newline>5. Data-driven insights''"

definition report_prompt :: "string \<Rightarrow> string \<Rightarrow> string" where
  "report_prompt query analyst_findings =
     ''Based on the data analyst'' @ [CHR 0x27] @ ''s findings, create a comprehensive professional report.\<newline>\<newline>Original Query: '' @
     query @ ''\<newline>\<newline>Data Analyst'' @ [CHR 0x27] @ ''s Findings:\<newline>'' @ analyst_findings @
     ''\<newline>\<newline>Create a detailed report with these sections:\<newline>1. Executive Summary\<newline>2. Key Findings  \<newline>3. Detailed Analysis\<newline>4. Insights and Trends\<newline>5. Recommendations\<newline>\<newline>Make it professional, clear, and actionable.''"

text \<open>
  Steps 2 to 4 of \<open>generate_report_with_autogen_multiagent\<close>: from the context string to
  the report. Creating the three agent objects calls nothing outside.
\<close>

definition run_agents :: "('w, 'e) library \<Rightarrow> string \<Rightarrow> string \<Rightarrow> ('w, 'e, string) prog" where
  "run_agents lib query context =
     then_do (initiate_chat lib data_analyst (analysis_prompt query context)) (\<lambda>u.
     then_do (last_message data_analyst) (\<lambda>analyst_findings.
     then_do (initiate_chat lib report_writer (report_prompt query analyst_findings)) (\<lambda>u.
     then_do (last_message report_writer) (\<lambda>final_report.
     pure_step (Inr final_report)))))"

text \<open>Step 1: the retrieval chosen by \<open>report_type\<close>.\<close>

definition retrieve_for :: "('w, 'e) library \<Rightarrow> string \<Rightarrow> string \<Rightarrow> int \<Rightarrow> ('w, 'e, string) prog" where
  "retrieve_for lib report_type query n =
     (if report_type = ''sales'' then retrieve_sales_data lib query n
      else if report_type = ''marketing'' then retrieve_marketing_data lib query n
      else retrieve_combined_data lib query n)"

definition generate_report_with_autogen_multiagent ::
  "('w, 'e) library \<Rightarrow> string \<Rightarrow> string \<Rightarrow> int \<Rightarrow> ('w, 'e, string) prog" where
  "generate_report_with_autogen_multiagent lib query report_type n =
     then_do (retrieve_for lib report_type query n) (\<lambda>context.
     run_agents lib query context)"

definition generate_report_with_rag ::
  "('w, 'e) library \<Rightarrow> string \<Rightarrow> string \<Rightarrow> int \<Rightarrow> ('w, 'e, string) prog" where
  "generate_report_with_rag lib query report_type n =
     generate_report_with_autogen_multiagent lib query report_type n"

section \<open>Sample data\<close>

text \<open>
  The hit of the round-trip scenario, two items whose metadata lack some of the fields
  of their type, with the context string expected for them, and the answer of a store
  that has no hit.
\<close>

definition sample_metadata :: metadata where
  "sample_metadata =
     [(''type'', MStr ''sales''), (''product'', MStr ''Widget A''), (''revenue'', MInt 500000),
      (''region'', MStr ''NA''), (''quarter'', MStr ''Q3'')]"

definition sample_results :: query_result where
  "sample_results =
     \<lparr>documents = Val [[''Q3 revenue up 12%'']], metadatas = Val [[sample_metadata]],
      distances = Val [[9 / 100]], other_keys = 1\<rparr>"

definition sample_item :: context_item where
  "sample_item =
     \<lparr>rank = 1, relevance_score = 91 / 100, item_type = MStr ''sales'',
      content = ''Q3 revenue up 12%'', metadata = sample_metadata\<rparr>"

definition sample_context :: string where
  "sample_context =
     ''Retrieved relevant information:\<newline>\<newline>\<newline>1. [SALES] (Relevance: 0.91)\<newline>   Q3 revenue up 12%\<newline>   Product: Widget A, Revenue: $500000, Region: NA, Quarter: Q3''"

definition partial_sales_item :: context_item where
  "partial_sales_item =
     \<lparr>rank = 1, relevance_score = 1 / 2, item_type = MStr ''sales'',
      content = ''Widget A sold well'',
      metadata = [(''type'', MStr ''sales''), (''product'', MStr ''Widget A''),
                  (''revenue'', MInt 500000)]\<rparr>"

definition partial_marketing_item :: context_item where
  "partial_marketing_item =
     \<lparr>rank = 2, relevance_score = - (1 / 4), item_type = MStr ''marketing'',
      content = ''Spring campaign'',
      metadata = [(''type'', MStr ''marketing''), (''channel'', MStr ''Email'')]\<rparr>"

definition partial_context :: string where
  "partial_context =
     ''Retrieved relevant information:\<newline>\<newline>\<newline>1. [SALES] (Relevance: 0.50)\<newline>   Widget A sold well\<newline>   Product: Widget A, Revenue: $500000, Region: None, Quarter: None\<newline>\<newline>2. [MARKETING] (Relevance: -0.25)\<newline>   Spring campaign\<newline>   Campaign: None, Channel: Email, Budget: $None, Conversions: None''"

definition no_hits :: query_result where
  "no_hits = \<lparr>documents = Val [[]], metadatas = Val [[]], distances = Val [[]], other_keys = 1\<rparr>"

text \<open>
  Two libraries to run the model on: in the first every call succeeds, the store
  answers with the sample hit and an agent answers with a fixed text; in the second
  the store works and every call of an agent raises.
\<close>

definition sample_library :: "(unit, string) library" where
  "sample_library =
     \<lparr>persistent_client = (\<lambda>w. (Inr (), w)),
      get_collection = (\<lambda>w. (Inr (), w)),
      create_collection = (\<lambda>w. (Inr (), w)),
      collection_query = (\<lambda>p w. (Inr (Some sample_results), w)),
      generate_reply = (\<lambda>a m w. (Inr (''reply of '' @ agent_name a), w))\<rparr>"

definition failing_library :: "(unit, string) library" where
  "failing_library =
     \<lparr>persistent_client = (\<lambda>w. (Inr (), w)),
      get_collection = (\<lambda>w. (Inr (), w)),
      create_collection = (\<lambda>w. (Inr (), w)),
      collection_query = (\<lambda>p w. (Inr (Some sample_results), w)),
      generate_reply = (\<lambda>a m w. (Inl ''timeout'', w))\<rparr>"

definition start :: "unit state" where
  "start = \<lparr>world = (), queries = [], chats = [], last_messages = (\<lambda>a. None)\<rparr>"

section \<open>Helper lemmas\<close>

lemma format_loop_append:
  "format_loop i xs acc =
     acc @ map (\<lambda>k. case xs ! k of (doc, md, d) \<Rightarrow> make_item (i + k) doc md d) [0..<length xs]"
proof (induction xs arbitrary: i acc)
  case Nil
  then show ?case by simp
next
  case (Cons x xs)
  obtain doc md d where x: "x = (doc, md, d)" by (cases x) auto
  have "map (\<lambda>k. case (x # xs) ! k of (doc, md, d) \<Rightarrow> make_item (i + k) doc md d) [0..<length (x # xs)]
        = make_item i doc md d #
          map (\<lambda>k. case xs ! k of (doc, md, d) \<Rightarrow> make_item (Suc i + k) doc md d) [0..<length xs]"
    by (simp add: x upt_conv_Cons map_Suc_upt [symmetric] del: upt_Suc)
  then show ?case using Cons.IH [of "Suc i" "acc @ [make_item i doc md d]"] by (simp add: x)
qed

lemma format_loop_length: "length (format_loop i xs []) = length xs"
  by (simp add: format_loop_append)

lemma format_loop_nth:
  "k < length xs \<Longrightarrow>
   format_loop i xs [] ! k = (case xs ! k of (doc, md, d) \<Rightarrow> make_item (i + k) doc md d)"
  by (simp add: format_loop_append)

lemma format_retrieval_results_lists:
  "format_retrieval_results
     (Some \<lparr>documents = Val (docs # dr), metadatas = Val (mds # mr),
            distances = Val (ds # dsr), other_keys = n\<rparr>) =
   Inr (Items (format_loop 0 (zip docs (zip mds ds)) []))"
  by (simp add: format_retrieval_results_def empty_dict_def truthy_def subscript0_def)

lemma create_context_string_Message: "create_context_string (Message s) = Inr s"
  by (simp add: create_context_string_def)

lemma join_part: "p \<in> set ps \<Longrightarrow> sublist p (join sep ps)"
proof (induction sep ps rule: join.induct)
  case (3 sep a b ps)
  show ?case
  proof (cases "p = a")
    case True
    then show ?thesis by simp
  next
    case False
    with 3 have "sublist p (join sep (b # ps))" by simp
    then obtain u v where "join sep (b # ps) = u @ p @ v" unfolding sublist_def by blast
    then have "join sep (a # b # ps) = (a @ sep @ u) @ p @ v" by simp
    then show ?thesis unfolding sublist_def by blast
  qed
qed simp_all

lemma context_loop_concat:
  assumes "\<forall>it \<in> set items. \<exists>t. item_type it = MStr t"
  shows "(context_loop items acc :: 'e exn + string list) =
           Inr (acc @ concat (map (\<lambda>it. projr (item_parts it :: 'e exn + string list)) items))"
  using assms
proof (induction items arbitrary: acc)
  case Nil
  then show ?case by simp
next
  case (Cons it items)
  then obtain t where t: "item_type it = MStr t" by auto
  then obtain ls where ls: "(item_parts it :: 'e exn + string list) = Inr ls"
    by (simp add: item_parts_def py_upper_def)
  from Cons.prems have "\<forall>it \<in> set items. \<exists>t. item_type it = MStr t" by simp
  from Cons.IH [OF this, of "acc @ ls"] ls show ?case by simp
qed

lemma sample_normal:
  "format_retrieval_results (Some sample_results) = Inr (Items [sample_item])"
  by (simp add: format_retrieval_results_def sample_results_def empty_dict_def truthy_def
      subscript0_def make_item_def sample_item_def sample_metadata_def)

lemma sample_rank_line:
  "rank_line sample_item ''SALES'' = ''\<newline>1. [SALES] (Relevance: 0.91)''"
  by (simp add: rank_line_def sample_item_def str_nat.simps digit_char_def format_2f_def
      round_half_even_def)

lemma sample_sales_line:
  "sales_line sample_metadata =
     ''   Product: Widget A, Revenue: $500000, Region: NA, Quarter: Q3''"
  by (simp add: sales_line_def sample_metadata_def str_get_def str_int_def str_nat.simps
      digit_char_def)

lemma upper_sales: "py_upper (MStr ''sales'') = Inr ''SALES''"
  by (simp add: py_upper_def upper_char_def)

lemma sample_item_parts:
  "(item_parts sample_item :: 'e exn + string list) =
     Inr [''\<newline>1. [SALES] (Relevance: 0.91)'', ''   Q3 revenue up 12%'',
          ''   Product: Widget A, Revenue: $500000, Region: NA, Quarter: Q3'']"
proof -
  have "item_type sample_item = MStr ''sales''" "metadata sample_item = sample_metadata"
    "content_line sample_item = ''   Q3 revenue up 12%''"
    by (simp_all add: sample_item_def content_line_def)
  then show ?thesis
    unfolding item_parts_def by (simp add: sample_rank_line sample_sales_line upper_sales)
qed

lemma sample_compose:
  "(create_context_string (Items [sample_item]) :: 'e exn + string) = Inr sample_context"
  by (simp add: create_context_string_def sample_item_parts context_header_def
      sample_context_def)

lemma sublist_report_prompt: "sublist findings (report_prompt query findings)"
  unfolding report_prompt_def sublist_def by (metis append.assoc)

lemma run_agents_analyst_raises:
  assumes "generate_reply lib data_analyst (analysis_prompt query context) (world s) = (Inl e, w)"
  shows "run_agents lib query context s =
           (Inl (Raised e),
            s\<lparr>world := w, chats := chats s @ [(data_analyst, analysis_prompt query context)]\<rparr>)"
  using assms by (simp add: run_agents_def then_do_def initiate_chat_def)

lemma initialize_chromadb_logs:
  "initialize_chromadb lib s = (r, s1) \<Longrightarrow>
   queries s1 = queries s \<and> chats s1 = chats s \<and> last_messages s1 = last_messages s"
  by (auto simp: initialize_chromadb_def split: prod.splits sum.splits)

lemma retrieve_relevant_context_queries:
  assumes "initialize_chromadb lib s = (Inr (), s1)"
  shows "queries (snd (retrieve_relevant_context lib query n filter_type s)) =
           queries s @
           [\<lparr>query_texts = [query], n_results = n,
             where_filter = (case filter_type of None \<Rightarrow> None
                             | Some t \<Rightarrow> if t \<noteq> [] then Some [(''type'', t)] else None)\<rparr>]"
  using assms initialize_chromadb_logs [OF assms]
  by (cases "collection_query lib \<lparr>query_texts = [query], n_results = n,
             where_filter = (case filter_type of None \<Rightarrow> None
                             | Some t \<Rightarrow> if t \<noteq> [] then Some [(''type'', t)] else None)\<rparr> (world s1)")
     (auto simp: retrieve_relevant_context_def then_do_def query_vectordb_def run_query_def
        split: option.splits sum.splits)

lemma format_compose_keep_state:
  "snd (then_do m (\<lambda>results.
          then_do (pure_step (format_retrieval_results results)) (\<lambda>formatted.
          pure_step (create_context_string formatted))) s) = snd (m s)"
  by (simp add: then_do_def pure_step_def split: prod.splits sum.splits)

lemma initialize_sample_library: "initialize_chromadb sample_library start = (Inr (), start)"
  by (simp add: initialize_chromadb_def sample_library_def start_def)

lemma initialize_failing_library: "initialize_chromadb failing_library start = (Inr (), start)"
  by (simp add: initialize_chromadb_def failing_library_def start_def)

lemma retrieve_sales_failing_library:
  "retrieve_for failing_library ''sales'' query 5 start =
     (Inr sample_context,
      start\<lparr>queries := [\<lparr>query_texts = [query], n_results = 5,
                          where_filter = Some [(''type'', ''sales'')]\<rparr>]\<rparr>)"
  by (simp add: retrieve_for_def retrieve_sales_data_def retrieve_relevant_context_def
      then_do_def initialize_failing_library query_vectordb_def run_query_def pure_step_def
      sample_normal sample_compose)
     (simp add: failing_library_def start_def then_do_def pure_step_def sample_normal
        sample_compose)

section \<open>The two-stage pipeline\<close>

text \<open>
  Claim C1. For every query and every context string, when the analyst's call returns
  its findings, the pipeline issues exactly two generation calls, the first to the data
  analyst with the analysis prompt and the second to the report writer; the writer's
  prompt contains the findings as a substring; and the pipeline returns what the
  writer's call returns, unchanged.
\<close>

theorem two_stage_pipeline_calls:
  assumes "generate_reply lib data_analyst (analysis_prompt query context) (world s) =
             (Inr findings, w)"
  shows "chats (snd (run_agents lib query context s)) =
           chats s @ [(data_analyst, analysis_prompt query context),
                      (report_writer, report_prompt query findings)] \<and>
         sublist findings (report_prompt query findings) \<and>
         fst (run_agents lib query context s) =
           (case fst (generate_reply lib report_writer (report_prompt query findings) w) of
              Inl e \<Rightarrow> Inl (Raised e) | Inr report \<Rightarrow> Inr report)"
proof -
  obtain r w2 where g: "generate_reply lib report_writer (report_prompt query findings) w = (r, w2)"
    by (cases "generate_reply lib report_writer (report_prompt query findings) w")
  show ?thesis
  proof (cases r)
    case (Inl e)
    with g assms show ?thesis
      by (simp add: run_agents_def then_do_def initiate_chat_def last_message_def
          sublist_report_prompt)
  next
    case (Inr report)
    with g assms show ?thesis
      by (simp add: run_agents_def then_do_def initiate_chat_def last_message_def
          pure_step_def sublist_report_prompt)
  qed
qed

theorem two_stage_pipeline_calls_witness:
  "generate_reply sample_library data_analyst (analysis_prompt ''q'' sample_context)
     (world start) = (Inr ''reply of data_analyst'', ()) \<and>
   chats (snd (run_agents sample_library ''q'' sample_context start)) =
     [(data_analyst, analysis_prompt ''q'' sample_context),
      (report_writer, report_prompt ''q'' ''reply of data_analyst'')] \<and>
   sublist ''reply of data_analyst'' (report_prompt ''q'' ''reply of data_analyst'') \<and>
   fst (run_agents sample_library ''q'' sample_context start) = Inr ''reply of report_writer''"
proof -
  have h: "generate_reply sample_library data_analyst (analysis_prompt ''q'' sample_context)
             (world start) = (Inr ''reply of data_analyst'', ())"
    by (simp add: sample_library_def data_analyst_def)
  have c: "chats start = []"
    by (simp add: start_def)
  have r: "fst (generate_reply sample_library report_writer
                  (report_prompt ''q'' ''reply of data_analyst'') ()) = Inr ''reply of report_writer''"
    by (simp add: sample_library_def report_writer_def)
  from two_stage_pipeline_calls [OF h] h c r show ?thesis by simp
qed

text \<open>
  Claim C2. When the analyst's call raises, the run ends with that same exception, and
  the only generation call issued is the analyst's: the writer is never called. The
  exception reaches the caller of \<open>generate_report_with_autogen_multiagent\<close> as it is.
\<close>

theorem analyst_failure_stops_pipeline:
  assumes "generate_reply lib data_analyst (analysis_prompt query context) (world s1) =
             (Inl e, w)"
  shows "run_agents lib query context s1 =
           (Inl (Raised e),
            s1\<lparr>world := w,
                chats := chats s1 @ [(data_analyst, analysis_prompt query context)]\<rparr>) \<and>
         (retrieve_for lib report_type query n s = (Inr context, s1) \<longrightarrow>
          generate_report_with_autogen_multiagent lib query report_type n s =
            (Inl (Raised e),
             s1\<lparr>world := w,
                 chats := chats s1 @ [(data_analyst, analysis_prompt query context)]\<rparr>))"
  using run_agents_analyst_raises [OF assms]
  by (simp add: generate_report_with_autogen_multiagent_def then_do_def)

theorem analyst_failure_stops_pipeline_witness:
  "generate_reply failing_library data_analyst (analysis_prompt ''q'' sample_context) () =
     (Inl ''timeout'', ()) \<and>
   retrieve_for failing_library ''sales'' ''q'' 5 start =
     (Inr sample_context,
      start\<lparr>queries := [\<lparr>query_texts = [''q''], n_results = 5,
                          where_filter = Some [(''type'', ''sales'')]\<rparr>]\<rparr>) \<and>
   fst (generate_report_with_autogen_multiagent failing_library ''q'' ''sales'' 5 start) =
     Inl (Raised ''timeout'') \<and>
   chats (snd (generate_report_with_autogen_multiagent failing_library ''q'' ''sales'' 5 start)) =
     [(data_analyst, analysis_prompt ''q'' sample_context)]"
proof -
  let ?s1 = "start\<lparr>queries := [\<lparr>query_texts = [''q''], n_results = 5,
                                  where_filter = Some [(''type'', ''sales'')]\<rparr>]\<rparr>"
  have h: "generate_reply failing_library data_analyst (analysis_prompt ''q'' sample_context)
             (world ?s1) = (Inl ''timeout'', ())"
    by (simp add: failing_library_def)
  have c: "chats ?s1 = []" "world ?s1 = ()"
    by (simp_all add: start_def)
  from analyst_failure_stops_pipeline [OF h, of "''sales''" 5 start]
    retrieve_sales_failing_library [of "''q''"] h c
  show ?thesis by simp
qed

section \<open>Normalising the result of a query\<close>

text \<open>
  Claim C3, as the specification states it, fails: a result that has documents and no
  \<open>metadatas\<close> entry makes \<open>format_retrieval_results\<close> raise \<open>KeyError\<close>.
\<close>

theorem format_retrieval_results_missing_metadatas:
  "format_retrieval_results
     (Some \<lparr>documents = Val [[''Q3 revenue up 12%'']], metadatas = Absent,
            distances = Val [[9 / 100]], other_keys = 1\<rparr>) =
   (Inl (KeyError ''metadatas'') :: string exn + formatted)"
  by (simp add: format_retrieval_results_def empty_dict_def truthy_def subscript0_def)

text \<open>
  Claim C3, amended. When the result is \<open>None\<close>, or a dict with no key, or a dict whose
  \<open>documents\<close> entry is absent, \<open>None\<close> or an empty list, \<open>format_retrieval_results\<close>
  returns the text \<open>No relevant information found.\<close> and raises nothing.
\<close>

theorem format_retrieval_results_sentinel:
  assumes "results = None \<or>
           (\<exists>r. results = Some r \<and>
                (empty_dict r \<or> documents r = Absent \<or> documents r = Null \<or>
                 documents r = Val []))"
  shows "format_retrieval_results results = Inr (Message ''No relevant information found.'')"
  using assms by (auto simp: format_retrieval_results_def truthy_def no_info_def)

theorem format_retrieval_results_sentinel_witness:
  "format_retrieval_results
     (Some \<lparr>documents = Val [], metadatas = Val [], distances = Val [], other_keys = 1\<rparr>) =
   (Inr (Message ''No relevant information found.'') :: string exn + formatted)"
  using format_retrieval_results_sentinel
    [of "Some \<lparr>documents = Val [], metadatas = Val [], distances = Val [], other_keys = 1\<rparr>"]
  by simp

text \<open>
  Claim C4. For a result whose first inner lists hold one document, one metadata dict
  and one distance per hit, and at least one hit, \<open>format_retrieval_results\<close> returns a
  list with one item per hit, in the order of the input: the item at position \<open>k\<close> has
  rank \<open>k + 1\<close> and carries the document and the metadata of hit \<open>k\<close>, so the ranks
  increase strictly from 1 and nothing is sorted again.
\<close>

theorem format_retrieval_results_ranks:
  assumes "docs \<noteq> []" and "length mds = length docs" and "length ds = length docs"
  shows "\<exists>items.
           format_retrieval_results
             (Some \<lparr>documents = Val (docs # dr), metadatas = Val (mds # mr),
                    distances = Val (ds # dsr), other_keys = n\<rparr>) = Inr (Items items) \<and>
           length items = length docs \<and>
           (\<forall>k < length docs.
              rank (items ! k) = k + 1 \<and> content (items ! k) = docs ! k \<and>
              metadata (items ! k) = mds ! k) \<and>
           sorted_wrt (<) (map rank items)"
proof -
  let ?xs = "zip docs (zip mds ds)"
  let ?items = "format_loop 0 ?xs []"
  have len: "length ?xs = length docs" using assms by simp
  have nth: "?items ! k = make_item k (docs ! k) (mds ! k) (ds ! k)" if "k < length docs" for k
    using that assms by (simp add: format_loop_nth)
  have "sorted_wrt (<) (map rank ?items)"
    unfolding sorted_wrt_iff_nth_less
    using nth len by (simp add: format_loop_length make_item_def)
  then show ?thesis
    using nth len
    by (simp add: format_retrieval_results_lists format_loop_length make_item_def)
qed

theorem format_retrieval_results_ranks_witness:
  "[''first'', ''second''] \<noteq> [] \<and>
   (\<exists>items.
      format_retrieval_results
        (Some \<lparr>documents = Val [[''first'', ''second'']],
               metadatas = Val [[[(''type'', MStr ''sales'')], []]],
               distances = Val [[1 / 10, 3 / 10]], other_keys = 1\<rparr>) =
        (Inr (Items items) :: string exn + formatted) \<and>
      length items = 2 \<and>
      rank (items ! 0) = 1 \<and> content (items ! 0) = ''first'' \<and>
      rank (items ! 1) = 2 \<and> content (items ! 1) = ''second'')"
proof -
  have "[''first'', ''second''] \<noteq> []"
    and "length [[(''type'', MStr ''sales'')], [] :: metadata] = length [''first'', ''second'']"
    and "length [1 / 10, 3 / 10 :: real] = length [''first'', ''second'']"
    by simp_all
  from format_retrieval_results_ranks [OF this, of "[]" "[]" "[]" 1]
  obtain items where
    f: "format_retrieval_results
          (Some \<lparr>documents = Val [[''first'', ''second'']],
                 metadatas = Val [[[(''type'', MStr ''sales'')], []]],
                 distances = Val [[1 / 10, 3 / 10]], other_keys = 1\<rparr>) =
        (Inr (Items items) :: string exn + formatted)"
    and l: "length items = length [''first'', ''second'']"
    and a: "\<forall>k < length [''first'', ''second''].
              rank (items ! k) = k + 1 \<and> content (items ! k) = [''first'', ''second''] ! k \<and>
              metadata (items ! k) = [[(''type'', MStr ''sales'')], []] ! k"
    by blast
  have k: "rank (items ! k) = k + 1 \<and> content (items ! k) = [''first'', ''second''] ! k"
    if "k < 2" for k
    using a that by simp
  from k [of 0] k [of 1] f l show ?thesis by simp
qed

text \<open>
  Claim C5. The relevance score of every item is exactly \<open>1 - distance\<close> for the
  distance of its hit; nothing clamps it, so a distance above 1 gives a negative score.
\<close>

theorem relevance_score_is_one_minus_distance:
  "\<exists>items.
     format_retrieval_results
       (Some \<lparr>documents = Val (docs # dr), metadatas = Val (mds # mr),
              distances = Val (ds # dsr), other_keys = n\<rparr>) = Inr (Items items) \<and>
     length items = min (length docs) (min (length mds) (length ds)) \<and>
     (\<forall>k < length items.
        relevance_score (items ! k) = 1 - ds ! k \<and>
        (1 < ds ! k \<longrightarrow> relevance_score (items ! k) < 0))"
  by (simp add: format_retrieval_results_lists format_loop_length format_loop_nth make_item_def)

theorem relevance_score_is_one_minus_distance_witness:
  "\<exists>items.
     format_retrieval_results
       (Some \<lparr>documents = Val [[''far away'']], metadatas = Val [[[]]],
              distances = Val [[3 / 2]], other_keys = 1\<rparr>) =
       (Inr (Items items) :: string exn + formatted) \<and>
     length items = 1 \<and> relevance_score (items ! 0) = - (1 / 2) \<and>
     (1 :: real) < 3 / 2 \<and> relevance_score (items ! 0) < 0"
proof -
  from relevance_score_is_one_minus_distance [of "[''far away'']" "[]" "[[]]" "[]" "[3 / 2]" "[]" 1]
  obtain items where
    f: "format_retrieval_results
          (Some \<lparr>documents = Val [[''far away'']], metadatas = Val [[[]]],
                 distances = Val [[3 / 2]], other_keys = 1\<rparr>) =
        (Inr (Items items) :: string exn + formatted)"
    and l: "length items = min (length [''far away'']) (min (length [[] :: metadata]) (length [3 / 2 :: real]))"
    and a: "\<forall>k < length items.
              relevance_score (items ! k) = 1 - [3 / 2] ! k \<and>
              (1 < [3 / 2 :: real] ! k \<longrightarrow> relevance_score (items ! k) < 0)"
    by blast
  from l have l1: "length items = 1" by simp
  with a have "relevance_score (items ! 0) = 1 - [3 / 2] ! 0 \<and>
               (1 < [3 / 2 :: real] ! 0 \<longrightarrow> relevance_score (items ! 0) < 0)"
    by simp
  then have "relevance_score (items ! 0) = - (1 / 2) \<and> relevance_score (items ! 0) < 0"
    by simp
  with f l1 show ?thesis by auto
qed

section \<open>Composing the context string\<close>

text \<open>
  Claim C6. \<open>create_context_string\<close> hands a string through unchanged, and the claim
  concludes that the context of an empty result set is the text
  \<open>No relevant information found.\<close> The answer of the vector store to a query without
  hits holds one empty inner list per entry; it passes the guard of
  \<open>format_retrieval_results\<close>, which returns the empty list of items, and the context
  string is then the header line alone, not that text.
\<close>

theorem no_hits_context_is_header_only:
  "format_retrieval_results (Some no_hits) = (Inr (Items []) :: string exn + formatted) \<and>
   create_context_string (Items []) =
     (Inr ''Retrieved relevant information:\<newline>'' :: string exn + string) \<and>
   ''Retrieved relevant information:\<newline>'' \<noteq> no_info \<and>
   create_context_string (Message no_info) = (Inr no_info :: string exn + string)"
  by (simp add: format_retrieval_results_def no_hits_def empty_dict_def truthy_def
      subscript0_def create_context_string_def context_header_def no_info_def)

text \<open>
  Claim C7. For every list of items whose types are strings, \<open>create_context_string\<close>
  returns a string and raises nothing, whatever fields the metadata lack. The string is
  the header followed, for every item in order, by its rank line (rank, type in upper
  case, score with two decimals), its content line and, for a sales (marketing) item,
  its metadata line, all joined by newlines; each of these lines is contained in the
  string. In a metadata line a field missing from the metadata is rendered as \<open>None\<close>,
  a field that is there as its own text (a string as it is, an integer in decimal).
\<close>

theorem create_context_string_missing_fields:
  assumes "\<forall>it \<in> set items. \<exists>t. item_type it = MStr t"
  shows "\<exists>out lines.
           lines = (\<lambda>it.
                [''\<newline>'' @ str_nat (rank it) @ ''. ['' @
                   (case item_type it of MStr t \<Rightarrow> map upper_char t | MInt i \<Rightarrow> []) @
                   ''] (Relevance: '' @ format_2f (relevance_score it) @ '')'',
                 ''   '' @ content it] @
                (if item_type it = MStr ''sales''
                 then [''   Product: '' @ str_get (metadata it) ''product'' @
                       '', Revenue: $'' @ str_get (metadata it) ''revenue'' @
                       '', Region: '' @ str_get (metadata it) ''region'' @
                       '', Quarter: '' @ str_get (metadata it) ''quarter'']
                 else if item_type it = MStr ''marketing''
                 then [''   Campaign: '' @ str_get (metadata it) ''campaign_name'' @
                       '', Channel: '' @ str_get (metadata it) ''channel'' @
                       '', Budget: $'' @ str_get (metadata it) ''budget'' @
                       '', Conversions: '' @ str_get (metadata it) ''conversions'']
                 else [])) \<and>
           (create_context_string (Items items) :: 'e exn + string) = Inr out \<and>
           out = join ''\<newline>'' (''Retrieved relevant information:\<newline>'' # concat (map lines items)) \<and>
           (\<forall>it \<in> set items. \<forall>l \<in> set (lines it). sublist l out) \<and>
           (\<forall>md k. map_of md k = None \<longrightarrow> str_get md k = ''None'') \<and>
           (\<forall>md k s. map_of md k = Some (MStr s) \<longrightarrow> str_get md k = s) \<and>
           (\<forall>md k i. map_of md k = Some (MInt i) \<longrightarrow> str_get md k = str_int i)"
proof -
  define lines :: "context_item \<Rightarrow> string list" where
    "lines = (\<lambda>it.
                [''\<newline>'' @ str_nat (rank it) @ ''. ['' @
                   (case item_type it of MStr t \<Rightarrow> map upper_char t | MInt i \<Rightarrow> []) @
                   ''] (Relevance: '' @ format_2f (relevance_score it) @ '')'',
                 ''   '' @ content it] @
                (if item_type it = MStr ''sales''
                 then [''   Product: '' @ str_get (metadata it) ''product'' @
                       '', Revenue: $'' @ str_get (metadata it) ''revenue'' @
                       '', Region: '' @ str_get (metadata it) ''region'' @
                       '', Quarter: '' @ str_get (metadata it) ''quarter'']
                 else if item_type it = MStr ''marketing''
                 then [''   Campaign: '' @ str_get (metadata it) ''campaign_name'' @
                       '', Channel: '' @ str_get (metadata it) ''channel'' @
                       '', Budget: $'' @ str_get (metadata it) ''budget'' @
                       '', Conversions: '' @ str_get (metadata it) ''conversions'']
                 else []))"
  let ?out = "join ''\<newline>'' (''Retrieved relevant information:\<newline>'' # concat (map lines items))"
  have per: "projr (item_parts it :: 'e exn + string list) = lines it" if "it \<in> set items" for it
  proof -
    from assms that obtain t where t: "item_type it = MStr t" by blast
    show ?thesis
      by (simp add: lines_def item_parts_def py_upper_def rank_line_def content_line_def
          sales_line_def marketing_line_def t)
  qed
  have "map (\<lambda>it. projr (item_parts it :: 'e exn + string list)) items = map lines items"
    by (rule map_cong [OF refl]) (rule per)
  then have "(context_loop items [context_header] :: 'e exn + string list) =
               Inr ([context_header] @ concat (map lines items))"
    by (simp only: context_loop_concat [OF assms, of "[context_header]"])
  then have out: "(create_context_string (Items items) :: 'e exn + string) = Inr ?out"
    by (simp add: create_context_string_def context_header_def)
  have sub: "\<forall>it \<in> set items. \<forall>l \<in> set (lines it). sublist l ?out"
  proof (intro ballI)
    fix it l
    assume "it \<in> set items" and "l \<in> set (lines it)"
    then have "l \<in> set (''Retrieved relevant information:\<newline>'' # concat (map lines items))"
      by auto
    then show "sublist l ?out" by (rule join_part)
  qed
  have g1: "\<forall>md k. map_of md k = None \<longrightarrow> str_get md k = ''None''"
    by (simp add: str_get_def)
  have g2: "\<forall>md k s. map_of md k = Some (MStr s) \<longrightarrow> str_get md k = s"
    by (simp add: str_get_def)
  have g3: "\<forall>md k i. map_of md k = Some (MInt i) \<longrightarrow> str_get md k = str_int i"
    by (simp add: str_get_def)
  show ?thesis
    by (rule exI [of _ ?out], rule exI [of _ lines], intro conjI)
       (rule lines_def out refl sub g1 g2 g3)+
qed

theorem create_context_string_missing_fields_witness:
  "create_context_string (Items [partial_sales_item, partial_marketing_item]) =
     (Inr partial_context :: string exn + string) \<and>
   map_of (metadata partial_sales_item) ''product'' = Some (MStr ''Widget A'') \<and>
   map_of (metadata partial_sales_item) ''region'' = None \<and>
   map_of (metadata partial_marketing_item) ''campaign_name'' = None \<and>
   map_of (metadata partial_marketing_item) ''channel'' = Some (MStr ''Email'')"
proof -
  have h: "\<forall>it \<in> set [partial_sales_item, partial_marketing_item]. \<exists>t. item_type it = MStr t"
    by (simp add: partial_sales_item_def partial_marketing_item_def)
  from create_context_string_missing_fields [OF h]
  obtain out lines where
    L: "lines = (\<lambda>it.
                [''\<newline>'' @ str_nat (rank it) @ ''. ['' @
                   (case item_type it of MStr t \<Rightarrow> map upper_char t | MInt i \<Rightarrow> []) @
                   ''] (Relevance: '' @ format_2f (relevance_score it) @ '')'',
                 ''   '' @ content it] @
                (if item_type it = MStr ''sales''
                 then [''   Product: '' @ str_get (metadata it) ''product'' @
                       '', Revenue: $'' @ str_get (metadata it) ''revenue'' @
                       '', Region: '' @ str_get (metadata it) ''region'' @
                       '', Quarter: '' @ str_get (metadata it) ''quarter'']
                 else if item_type it = MStr ''marketing''
                 then [''   Campaign: '' @ str_get (metadata it) ''campaign_name'' @
                       '', Channel: '' @ str_get (metadata it) ''channel'' @
                       '', Budget: $'' @ str_get (metadata it) ''budget'' @
                       '', Conversions: '' @ str_get (metadata it) ''conversions'']
                 else []))"
    and o: "create_context_string (Items [partial_sales_item, partial_marketing_item]) =
              (Inr out :: string exn + string)"
    and e: "out = join ''\<newline>'' (''Retrieved relevant information:\<newline>'' #
                    concat (map lines [partial_sales_item, partial_marketing_item]))"
    by iprover
  have a: "lines partial_sales_item =
             [''\<newline>1. [SALES] (Relevance: 0.50)'', ''   Widget A sold well'',
              ''   Product: Widget A, Revenue: $500000, Region: None, Quarter: None'']"
    unfolding L
    by (simp add: partial_sales_item_def str_get_def str_int_def str_nat.simps digit_char_def
        format_2f_def round_half_even_def upper_char_def)
  have b: "lines partial_marketing_item =
             [''\<newline>2. [MARKETING] (Relevance: -0.25)'', ''   Spring campaign'',
              ''   Campaign: None, Channel: Email, Budget: $None, Conversions: None'']"
    unfolding L
    by (simp add: partial_marketing_item_def str_get_def str_int_def str_nat.simps digit_char_def
        format_2f_def round_half_even_def upper_char_def)
  from e have "out = partial_context"
    by (simp add: a b partial_context_def)
  with o show ?thesis
    by (simp add: partial_sales_item_def partial_marketing_item_def)
qed

text \<open>
  Claim C9. The round-trip scenario: the one hit with document \<open>Q3 revenue up 12%\<close>,
  the sales metadata of Widget A and distance 0.09 is normalised to one item of rank 1,
  score 0.91 and type \<open>sales\<close>, and the context string of that item contains the rank
  line, the content line and the metadata line of the scenario.
\<close>

theorem round_trip_scenario:
  "format_retrieval_results (Some sample_results) =
     (Inr (Items [sample_item]) :: string exn + formatted) \<and>
   rank sample_item = 1 \<and> relevance_score sample_item = 91 / 100 \<and>
   item_type sample_item = MStr ''sales'' \<and>
   create_context_string (Items [sample_item]) = (Inr sample_context :: string exn + string) \<and>
   sublist ''1. [SALES] (Relevance: 0.91)'' sample_context \<and>
   sublist ''   Q3 revenue up 12%'' sample_context \<and>
   sublist ''Product: Widget A, Revenue: $500000, Region: NA, Quarter: Q3'' sample_context"
proof -
  have "sample_context =
          ''Retrieved relevant information:\<newline>\<newline>\<newline>'' @ ''1. [SALES] (Relevance: 0.91)'' @
          ''\<newline>   Q3 revenue up 12%\<newline>   Product: Widget A, Revenue: $500000, Region: NA, Quarter: Q3''"
    by (simp add: sample_context_def)
  then have a: "sublist ''1. [SALES] (Relevance: 0.91)'' sample_context"
    unfolding sublist_def by blast
  have "sample_context =
          ''Retrieved relevant information:\<newline>\<newline>\<newline>1. [SALES] (Relevance: 0.91)\<newline>'' @ ''   Q3 revenue up 12%'' @
          ''\<newline>   Product: Widget A, Revenue: $500000, Region: NA, Quarter: Q3''"
    by (simp add: sample_context_def)
  then have b: "sublist ''   Q3 revenue up 12%'' sample_context"
    unfolding sublist_def by blast
  have "sample_context =
          ''Retrieved relevant information:\<newline>\<newline>\<newline>1. [SALES] (Relevance: 0.91)\<newline>   Q3 revenue up 12%\<newline>   '' @
          ''Product: Widget A, Revenue: $500000, Region: NA, Quarter: Q3'' @ ''''"
    by (simp add: sample_context_def)
  then have c: "sublist ''Product: Widget A, Revenue: $500000, Region: NA, Quarter: Q3'' sample_context"
    unfolding sublist_def by blast
  have d: "rank sample_item = 1 \<and> relevance_score sample_item = 91 / 100 \<and>
           item_type sample_item = MStr ''sales''"
    by (simp add: sample_item_def)
  from a b c d sample_normal sample_compose show ?thesis by blast
qed

section \<open>Choosing the retrieval\<close>



text \<open>
  Claim C10. A report type that is neither \<open>sales\<close> nor \<open>marketing\<close>, whatever string
  it is, runs the combined retrieval: the whole report generation behaves as for
  \<open>combined\<close>, so no error is raised for the unknown type, and the one query issued
  has no filter.
\<close>

theorem unknown_report_type_is_combined:
  assumes "report_type \<noteq> ''sales''" and "report_type \<noteq> ''marketing''"
  shows "retrieve_for lib report_type query n = retrieve_combined_data lib query n \<and>
         generate_report_with_autogen_multiagent lib query report_type n =
           generate_report_with_autogen_multiagent lib query ''combined'' n \<and>
         (initialize_chromadb lib s = (Inr (), s1) \<longrightarrow>
          queries (snd (retrieve_for lib report_type query n s)) =
            queries s @ [\<lparr>query_texts = [query], n_results = n, where_filter = None\<rparr>])"
proof -
  have r: "retrieve_for lib report_type query n = retrieve_combined_data lib query n"
    using assms by (simp add: retrieve_for_def)
  have c: "retrieve_for lib ''combined'' query n = retrieve_combined_data lib query n"
    by (simp add: retrieve_for_def)
  have "queries (snd (retrieve_combined_data lib query n s)) =
          queries s @ [\<lparr>query_texts = [query], n_results = n, where_filter = None\<rparr>]"
    if "initialize_chromadb lib s = (Inr (), s1)"
    by (simp add: retrieve_combined_data_def format_compose_keep_state
        retrieve_relevant_context_queries [OF that])
  with r c show ?thesis
    by (simp add: generate_report_with_autogen_multiagent_def)
qed

theorem unknown_report_type_is_combined_witness:
  "''slaes'' \<noteq> ''sales'' \<and> ''slaes'' \<noteq> ''marketing'' \<and>
   initialize_chromadb sample_library start = (Inr (), start) \<and>
   generate_report_with_autogen_multiagent sample_library ''q'' ''slaes'' 8 =
     generate_report_with_autogen_multiagent sample_library ''q'' ''combined'' 8 \<and>
   queries (snd (retrieve_for sample_library ''slaes'' ''q'' 8 start)) =
     [\<lparr>query_texts = [''q''], n_results = 8, where_filter = None\<rparr>]"
proof -
  have n: "''slaes'' \<noteq> ''sales''" "''slaes'' \<noteq> ''marketing''" by simp_all
  have q: "queries start = []" by (simp add: start_def)
  note t = unknown_report_type_is_combined [OF n, of sample_library "''q''" 8 start start]
  note g = t [THEN conjunct2, THEN conjunct1]
  note u = t [THEN conjunct2, THEN conjunct2, THEN mp, OF initialize_sample_library]
  from u q have "queries (snd (retrieve_for sample_library ''slaes'' ''q'' 8 start)) =
                   [\<lparr>query_texts = [''q''], n_results = 8, where_filter = None\<rparr>]"
    by simp
  with n g initialize_sample_library show ?thesis by blast
qed

end
